theory Spec2Isabelle
  imports Complex_Main
begin

section \<open>The chunked CSV store of th-e-core (\<open>core/database.py\<close>)\<close>

text \<open>
  \<open>CsvDatabase\<close> keeps time-indexed tables in CSV files, one file per time bucket.
  \<open>get\<close> visits the bucket files of a span, unions them, optionally resamples and
  cuts the window out; \<open>persist\<close> writes a table to its bucket file, merging with the
  file already there when \<open>merge\<close> is configured.

  The source is Python over pandas. Its own functions (\<open>exists\<close>, \<open>get\<close>,
  \<open>persist\<close>, \<open>_write_file\<close>, \<open>_read_file\<close>) are embedded statement by
  statement; the leading underscore of the last two is dropped, since an Isabelle name
  cannot start with one. What they call in pandas and \<open>os.path\<close> is modelled below
  from the documented behaviour of these libraries, on a table type that keeps what the
  source looks at: the name and the kind of the index, the column names, the rows.
\<close>

subsection \<open>Time\<close>

text \<open>
  An instant is an integer: microseconds since the epoch, in UTC (the resolution of
  \<open>datetime\<close>). \<open>hours\<close> and \<open>seconds\<close> are \<open>dt.timedelta(hours=h)\<close> and
  \<open>dt.timedelta(seconds=s)\<close>; \<open>midnight t\<close> is
  \<open>t.replace(hour=0, minute=0, second=0, microsecond=0)\<close> for a \<open>t\<close> whose zone is
  UTC. A \<open>datetime\<close> of another zone keeps its zone under \<open>replace\<close>, so its
  midnight is that of its own wall clock: such arguments are outside this model.
\<close>

definition seconds :: "int \<Rightarrow> int" where
  "seconds s = s * 1000000"

definition hours :: "int \<Rightarrow> int" where
  "hours h = h * 3600000000"

definition day :: int where
  "day = 86400000000"

definition midnight :: "int \<Rightarrow> int" where
  "midnight t = t - t mod day"

subsection \<open>Errors\<close>

text \<open>
  Every exception the embedded code can raise is a value. \<open>OSError\<close> stands for the
  failures of opening a path (\<open>FileNotFoundError\<close>, \<open>IsADirectoryError\<close>).
  \<open>Unmodelled\<close> is not an exception of the program: it marks the one parse that the
  file type below cannot express (the index column named is one of the value columns).
\<close>

datatype error =
    TypeError | ValueError | IndexError | AttributeError | EmptyDataError | OSError
  | Unmodelled

subsection \<open>Tables\<close>

text \<open>
  A \<open>DataFrame\<close> as the source uses it: an index with a name and a kind, column
  names (pandas allows a name twice), and rows, each an index value with one cell per
  column. A cell is \<open>None\<close> where pandas has NaN. The kinds of index are:
  \<^item> \<open>Plain\<close>: the empty object index of \<open>pd.DataFrame()\<close> and of a parse without
    data lines;
  \<^item> \<open>Numbers\<close>: integers that are not dates yet (epoch milliseconds);
  \<^item> \<open>Naive\<close>: a \<open>DatetimeIndex\<close> without time zone;
  \<^item> \<open>Aware\<close>: a \<open>DatetimeIndex\<close> with a time zone (its values are the UTC instants).
  The operations are modelled on tables whose index values are distinct and whose rows
  have one cell per column.
\<close>

datatype index_kind = Plain | Numbers | Naive | Aware

record frame =
  index_name :: "string option"
  kind :: index_kind
  names :: "string list"
  rows :: "(int \<times> real option list) list"

definition DataFrame :: frame where
  "DataFrame = \<lparr>index_name = None, kind = Plain, names = [], rows = []\<rparr>"

definition index :: "frame \<Rightarrow> int list" where
  "index f = map fst (rows f)"

text \<open>\<open>DataFrame.empty\<close>: true when any axis has length 0.\<close>

definition empty :: "frame \<Rightarrow> bool" where
  "empty f = (rows f = [] \<or> names f = [])"

text \<open>
  The cell of column \<open>c\<close> at index value \<open>t\<close>: \<open>None\<close> when the row or the column
  is not there or the cell is NaN. Where a name occurs twice, the first column answers.
\<close>

definition cell :: "frame \<Rightarrow> string \<Rightarrow> int \<Rightarrow> real option" where
  "cell f c t =
     (case map_of (rows f) t of
        None \<Rightarrow> None
      | Some vs \<Rightarrow> (case map_of (zip (names f) vs) c of None \<Rightarrow> None | Some v \<Rightarrow> v))"

text \<open>
  \<open>a.combine_first(b)\<close>: the rows and the columns of the result are the unions of those
  of \<open>a\<close> and \<open>b\<close>, the rows in index order; a cell is that of \<open>a\<close> unless it is
  NaN or absent there, then that of \<open>b\<close>. Two short cuts of pandas come first: when
  \<open>b\<close> is empty and brings no new row the result is \<open>a\<close>; when \<open>a\<close> is empty and
  brings no new row the result is \<open>b\<close>. Two indexes of different kinds, both with
  rows, have no union of instants: the model has the alignment raise \<open>TypeError\<close>, as
  pandas does for an aware index against a naive one.
\<close>

definition union_index :: "frame \<Rightarrow> frame \<Rightarrow> int list" where
  "union_index a b = sort (remdups (index a @ index b))"

definition union_name :: "frame \<Rightarrow> frame \<Rightarrow> string option" where
  "union_name a b = (if index_name a = index_name b then index_name a else None)"

definition combine_first :: "frame \<Rightarrow> frame \<Rightarrow> error + frame" where
  "combine_first a b =
     (if rows a \<noteq> [] \<and> rows b \<noteq> [] \<and> kind a \<noteq> kind b then Inl TypeError
      else if empty b \<and> length (union_index a b) = length (rows a) then Inr a
      else if empty a \<and> length (union_index a b) = length (rows b) then Inr b
      else
        let cols = names a @ filter (\<lambda>c. c \<notin> set (names a)) (names b)
        in Inr \<lparr>index_name = union_name a b,
                kind = (if rows a = [] then kind b else kind a),
                names = cols,
                rows = map (\<lambda>t. (t, map (\<lambda>c. case cell a c t of
                                                  Some v \<Rightarrow> Some v
                                                | None \<Rightarrow> cell b c t) cols))
                           (union_index a b)\<rparr>)"

text \<open>
  \<open>pd.concat([a, b], axis=1)\<close>: the columns of \<open>a\<close> followed by the columns of
  \<open>b\<close>, every one of them kept (a name that both have occurs twice), over the union of
  the rows.
\<close>

definition column :: "frame \<Rightarrow> nat \<Rightarrow> int \<Rightarrow> real option" where
  "column f j t =
     (case map_of (rows f) t of
        None \<Rightarrow> None
      | Some vs \<Rightarrow> (if j < length vs then vs ! j else None))"

definition concat_axis1 :: "frame \<Rightarrow> frame \<Rightarrow> frame" where
  "concat_axis1 a b =
     \<lparr>index_name = union_name a b,
      kind = (if rows a = [] then kind b else kind a),
      names = names a @ names b,
      rows = map (\<lambda>t. (t, map (\<lambda>j. column a j t) [0..<length (names a)] @
                          map (\<lambda>j. column b j t) [0..<length (names b)]))
                 (union_index a b)\<rparr>"

text \<open>
  \<open>f.loc[lo:hi]\<close> keeps the rows with \<open>lo \<le> t \<le> hi\<close> (both ends belong to a label
  slice); \<open>f.truncate(before=lo)\<close> keeps the rows with \<open>lo \<le> t\<close>; \<open>f.head(1)\<close>
  keeps the first row.
\<close>

definition loc :: "int \<Rightarrow> int \<Rightarrow> frame \<Rightarrow> frame" where
  "loc lo hi f = f\<lparr>rows := filter (\<lambda>r. lo \<le> fst r \<and> fst r \<le> hi) (rows f)\<rparr>"

definition truncate_before :: "int \<Rightarrow> frame \<Rightarrow> frame" where
  "truncate_before lo f = f\<lparr>rows := filter (\<lambda>r. lo \<le> fst r) (rows f)\<rparr>"

definition head :: "nat \<Rightarrow> frame \<Rightarrow> frame" where
  "head n f = f\<lparr>rows := take n (rows f)\<rparr>"

text \<open>
  \<open>f.resample(str(n) + 's', base=b).sum()\<close>, with \<open>width\<close> the bin width and
  \<open>base\<close> the phase, both in microseconds. pandas anchors the bins at the midnight of
  the first row's day plus \<open>base\<close>; the bin of an instant \<open>t\<close> starts at
  \<open>bin_of origin width t\<close>. The result has one row for every bin from that of the
  earliest row to that of the latest, labelled by the start of the bin, empty bins
  included; a cell is the sum of the cells of its column in the bin that are not NaN
  (0 when there is none). The sum is the exact one of the reals, where pandas adds
  doubles and rounds. A table without a \<open>DatetimeIndex\<close> raises \<open>TypeError\<close>.
\<close>

definition bin_of :: "int \<Rightarrow> int \<Rightarrow> int \<Rightarrow> int" where
  "bin_of origin width t = t - (t - origin) mod width"

definition bin_labels :: "int \<Rightarrow> int \<Rightarrow> int list \<Rightarrow> int list" where
  "bin_labels width base ts =
     (case ts of
        [] \<Rightarrow> []
      | t # ts' \<Rightarrow>
          let first = fold min ts' t;
              last = fold max ts' t;
              origin = midnight first + base mod width;
              lo = bin_of origin width first;
              hi = bin_of origin width last
          in map (\<lambda>k. lo + int k * width) [0..<nat ((hi - lo) div width + 1)])"

definition bin_sum :: "frame \<Rightarrow> int \<Rightarrow> int \<Rightarrow> nat \<Rightarrow> real" where
  "bin_sum f lo hi j =
     sum_list (map (\<lambda>r. if j < length (snd r) then (case snd r ! j of None \<Rightarrow> 0 | Some v \<Rightarrow> v)
                         else 0)
                   (filter (\<lambda>r. lo \<le> fst r \<and> fst r < hi) (rows f)))"

definition resample_sum :: "int \<Rightarrow> int \<Rightarrow> frame \<Rightarrow> error + frame" where
  "resample_sum width base f =
     (if kind f = Plain \<or> kind f = Numbers then Inl TypeError
      else Inr (f\<lparr>rows := map (\<lambda>l. (l, map (\<lambda>j. Some (bin_sum f l (l + width) j))
                                            [0..<length (names f)]))
                            (bin_labels width base (index f))\<rparr>))"

text \<open>
  \<open>index.tz_localize(tz.utc)\<close> attaches UTC to a naive \<open>DatetimeIndex\<close>; pandas
  refuses an index that has a zone already (\<open>TypeError\<close>), and an index that holds no
  dates has no such method (\<open>AttributeError\<close>). \<open>f.tz_convert(tz.utc)\<close> leaves the
  instants of an aware index as they are and raises \<open>TypeError\<close> on any other index.
  \<open>pd.to_datetime(index, unit='ms')\<close> reads numbers as epoch milliseconds and gives a
  naive \<open>DatetimeIndex\<close>.
\<close>

definition tz_localize :: "frame \<Rightarrow> error + frame" where
  "tz_localize f =
     (case kind f of
        Naive \<Rightarrow> Inr (f\<lparr>kind := Aware\<rparr>)
      | Aware \<Rightarrow> Inl TypeError
      | _ \<Rightarrow> Inl AttributeError)"

definition tz_convert :: "frame \<Rightarrow> error + frame" where
  "tz_convert f = (if kind f = Aware then Inr f else Inl TypeError)"

definition to_datetime_ms :: "frame \<Rightarrow> frame" where
  "to_datetime_ms f =
     (if kind f = Numbers
      then f\<lparr>kind := Naive, rows := map (\<lambda>r. (fst r * 1000, snd r)) (rows f)\<rparr>
      else f)"

subsection \<open>Files and the file system\<close>

text \<open>
  A chunk file is either zero bytes long or a header line followed by data lines, the
  first field of each line being the index (the layout \<open>to_csv\<close> writes). The type
  keeps what the parser makes of the text: the name of the index column, the names of
  the value columns, the form of the index fields (integers, date-times without a UTC
  offset, date-times with one) and, per data line, the index value and the cells (an
  empty field is \<open>None\<close>). Separator, decimal mark and encoding are below this level.
\<close>

datatype stamps = Integers | Datetimes | Offsets

datatype csv = Zero_bytes | Csv string "string list" stamps "(int \<times> real option list) list"

text \<open>
  One thing the source relies on differs between pandas releases: whether \<open>read_csv\<close>
  keeps a UTC offset found in a parsed date column (from 0.24 on, the index is then
  time-zone aware) or converts to UTC and drops it (before, the index is naive). It is a
  parameter of everything that reads a file.
\<close>

datatype pandas = Drops_offset | Keeps_offset

definition parsed_kind :: "pandas \<Rightarrow> stamps \<Rightarrow> index_kind" where
  "parsed_kind pd text =
     (case text of
        Integers \<Rightarrow> Numbers
      | Datetimes \<Rightarrow> Naive
      | Offsets \<Rightarrow> (case pd of Drops_offset \<Rightarrow> Naive | Keeps_offset \<Rightarrow> Aware))"

text \<open>
  \<open>read_csv\<close> renames a column whose name was seen \<open>k\<close> times before to
  \<open>name.k\<close>.
\<close>

fun str_nat :: "nat \<Rightarrow> string" where
  "str_nat n =
     (if n < 10 then [''0123456789'' ! n] else str_nat (n div 10) @ [''0123456789'' ! (n mod 10)])"

declare str_nat.simps [simp del]

fun mangle :: "string list \<Rightarrow> string list \<Rightarrow> string list" where
  "mangle seen [] = []"
| "mangle seen (n # ns) =
     (let k = count_list seen n
      in (if k = 0 then n else n @ ''.'' @ str_nat k) # mangle (seen @ [n]) ns)"

text \<open>
  \<open>pd.read_csv(file, index_col=c, parse_dates=[c])\<close>: a file of zero bytes raises
  \<open>EmptyDataError\<close>; a header without the column \<open>c\<close> raises \<open>ValueError\<close>. A file
  without data lines gives a table without rows, whose index is the plain empty one.
\<close>

definition read_csv :: "pandas \<Rightarrow> csv \<Rightarrow> string \<Rightarrow> error + frame" where
  "read_csv pd file index_col =
     (case file of
        Zero_bytes \<Rightarrow> Inl EmptyDataError
      | Csv label header text lines \<Rightarrow>
          if index_col = label
          then Inr \<lparr>index_name = Some index_col,
                    kind = (if lines = [] then Plain else parsed_kind pd text),
                    names = mangle [] header,
                    rows = lines\<rparr>
          else if index_col \<in> set header then Inl Unmodelled
          else Inl ValueError)"

text \<open>
  \<open>f.to_csv(path)\<close> writes the index name (nothing for an unnamed index) and the
  column names, then the rows; the instants of an aware index are written with their
  offset.
\<close>

definition to_csv :: "frame \<Rightarrow> csv" where
  "to_csv f =
     Csv (case index_name f of None \<Rightarrow> [] | Some n \<Rightarrow> n)
         (names f)
         (case kind f of Aware \<Rightarrow> Offsets | Numbers \<Rightarrow> Integers | _ \<Rightarrow> Datetimes)
         (rows f)"

text \<open>
  The file system: the regular files with their content, and the directories.
  \<open>join\<close> is \<open>posixpath.join\<close>.
\<close>

record fs =
  files :: "string \<rightharpoonup> csv"
  dirs :: "string set"

definition path_exists :: "fs \<Rightarrow> string \<Rightarrow> bool" where
  "path_exists s p = (files s p \<noteq> None \<or> p \<in> dirs s)"

definition isfile :: "fs \<Rightarrow> string \<Rightarrow> bool" where
  "isfile s p = (files s p \<noteq> None)"

definition makedirs :: "fs \<Rightarrow> string \<Rightarrow> fs" where
  "makedirs s p = s\<lparr>dirs := insert p (dirs s)\<rparr>"

definition join2 :: "string \<Rightarrow> string \<Rightarrow> string" where
  "join2 a b =
     (if b \<noteq> [] \<and> hd b = CHR ''/'' then b
      else if a = [] \<or> last a = CHR ''/'' then a @ b
      else a @ ''/'' @ b)"

definition join :: "string \<Rightarrow> string list \<Rightarrow> string" where
  "join a ps = foldl join2 a ps"

definition open_csv :: "pandas \<Rightarrow> fs \<Rightarrow> string \<Rightarrow> string \<Rightarrow> error + frame" where
  "open_csv pd s path index_col =
     (case files s path of None \<Rightarrow> Inl OSError | Some file \<Rightarrow> read_csv pd file index_col)"

subsection \<open>\<open>CsvDatabase\<close>\<close>

text \<open>
  The attributes set by \<open>__init__\<close>. \<open>format\<close> is the rendering
  \<open>time.strftime(self.format)\<close> of an instant under the configured pattern;
  \<open>interval\<close> is the bucket width in hours.
\<close>

record config =
  dir :: string
  merge :: bool
  format :: "int \<Rightarrow> string"
  interval :: int
  index_column :: string
  index_unix :: bool

definition exists :: "config \<Rightarrow> fs \<Rightarrow> int \<Rightarrow> string \<Rightarrow> bool" where
  "exists cfg s time subdir =
     path_exists s (join (dir cfg) [subdir, format cfg time @ ''.csv''])"

text \<open>
  \<open>_read_file\<close> (lines 220 to 232). \<open>csv.index.tzinfo\<close> exists on a
  \<open>DatetimeIndex\<close> only.
\<close>

definition tzinfo :: "frame \<Rightarrow> error + bool" where
  "tzinfo f =
     (case kind f of Naive \<Rightarrow> Inr False | Aware \<Rightarrow> Inr True | _ \<Rightarrow> Inl AttributeError)"

definition read_file :: "pandas \<Rightarrow> config \<Rightarrow> fs \<Rightarrow> string \<Rightarrow> error + frame" where
  "read_file pd cfg s path =
     (case open_csv pd s path (index_column cfg) of
        Inl e \<Rightarrow> Inl e
      | Inr csv \<Rightarrow>
          (case (if \<not> empty csv then
                   (let csv1 = (if index_unix cfg then to_datetime_ms csv else csv)
                    in case tzinfo csv1 of
                         Inl e \<Rightarrow> Inl e
                       | Inr aware \<Rightarrow> if \<not> aware then tz_localize csv1 else Inr csv1)
                 else Inr csv) of
             Inl e \<Rightarrow> Inl e
           | Inr csv2 \<Rightarrow> Inr (csv2\<lparr>index_name := Some ''time''\<rparr>)))"

text \<open>
  \<open>_write_file\<close> (lines 178 to 192). \<open>merge_read\<close> is its reading of the file that
  is there: the \<open>read_csv\<close> of line 183 and the \<open>tz_localize\<close> of line 185. The
  cells are numbers already, so \<open>astype(float)\<close> changes nothing. The result is the
  file system after the call and the exception raised, if any.
\<close>

definition merge_read :: "pandas \<Rightarrow> fs \<Rightarrow> string \<Rightarrow> error + frame" where
  "merge_read pd s path =
     (case open_csv pd s path ''time'' of
        Inl e \<Rightarrow> Inl e
      | Inr csv \<Rightarrow> if \<not> empty csv then tz_localize csv else Inr csv)"

definition write_file :: "pandas \<Rightarrow> config \<Rightarrow> fs \<Rightarrow> string \<Rightarrow> frame \<Rightarrow> fs \<times> error option" where
  "write_file pd cfg s path data =
     (case tz_convert data of
        Inl e \<Rightarrow> (s, Some e)
      | Inr data0 \<Rightarrow>
          let data1 = data0\<lparr>index_name := Some ''time''\<rparr>
          in case (if merge cfg \<and> isfile s path then
                     (case merge_read pd s path of
                        Inl e \<Rightarrow> Inl e
                      | Inr csv \<Rightarrow>
                          if \<not> empty csv then
                            (if list_all (\<lambda>name. name \<in> set (names csv)) (names data1)
                             then combine_first data1 csv
                             else Inr (concat_axis1 csv data1))
                          else Inr data1)
                   else Inr data1) of
               Inl e \<Rightarrow> (s, Some e)
             | Inr data2 \<Rightarrow> (s\<lparr>files := (files s)(path \<mapsto> to_csv data2)\<rparr>, None))"

text \<open>
  \<open>persist\<close> (lines 165 to 176). \<open>data.index[0]\<close> raises \<open>IndexError\<close> on a table
  without rows; an index value that is a number has no \<open>strftime\<close>.
\<close>

definition persist ::
  "pandas \<Rightarrow> config \<Rightarrow> fs \<Rightarrow> frame option \<Rightarrow> int option \<Rightarrow> string option \<Rightarrow> string
   \<Rightarrow> fs \<times> error option" where
  "persist pd cfg s data time file subdir =
     (case data of
        None \<Rightarrow> (s, None)
      | Some d \<Rightarrow>
          (case (case time of
                   Some t \<Rightarrow> Inr (t, True)
                 | None \<Rightarrow> (case rows d of
                              [] \<Rightarrow> Inl IndexError
                            | r # _ \<Rightarrow> Inr (fst r, kind d \<noteq> Numbers))) of
             Inl e \<Rightarrow> (s, Some e)
           | Inr (t, is_datetime) \<Rightarrow>
               (case (case file of
                        Some f \<Rightarrow> Inr f
                      | None \<Rightarrow> if is_datetime then Inr (format cfg t @ ''.csv'')
                                else Inl AttributeError) of
                  Inl e \<Rightarrow> (s, Some e)
                | Inr f \<Rightarrow>
                    let path = join (dir cfg) [subdir];
                        s1 = (if \<not> path_exists s path then makedirs s path else s)
                    in write_file pd cfg s1 (join path [f]) d)))"

text \<open>
  \<open>get\<close> (lines 139 to 163). \<open>load\<close> is its \<open>while\<close> loop (lines 146 to 150) on
  the loop variables \<open>time\<close> and \<open>data\<close>; the loop need not end (a bucket width of
  zero hours), so its result is an option, \<open>None\<close> for a call that does not return.
  \<open>None + timedelta\<close> and \<open>None <= end\<close> raise \<open>TypeError\<close>. After line 143
  \<open>end\<close> is a date, so the test of line 157 holds and line 163 is not reached.
  \<open>interval\<close> is a whole number of seconds. The keyword arguments that \<open>get\<close>
  hands on to \<open>read_csv\<close> are left out.
\<close>

partial_function (option) load ::
  "pandas \<Rightarrow> config \<Rightarrow> fs \<Rightarrow> string \<Rightarrow> int \<Rightarrow> int \<Rightarrow> frame \<Rightarrow> (error + frame) option" where
  "load pd cfg s subdir time end data =
     (if time \<le> end then
        (if exists cfg s time subdir then
           (case read_file pd cfg s (join (dir cfg) [subdir, format cfg time @ ''.csv'']) of
              Inl e \<Rightarrow> Some (Inl e)
            | Inr csv \<Rightarrow>
                (case combine_first data csv of
                   Inl e \<Rightarrow> Some (Inl e)
                 | Inr data1 \<Rightarrow> load pd cfg s subdir (time + hours (interval cfg)) end data1))
         else load pd cfg s subdir (time + hours (interval cfg)) end data)
      else Some (Inr data))"

declare load.simps [code]

definition get ::
  "pandas \<Rightarrow> config \<Rightarrow> fs \<Rightarrow> int option \<Rightarrow> int option \<Rightarrow> int option \<Rightarrow> string
   \<Rightarrow> (error + frame) option" where
  "get pd cfg s start end0 interval0 subdir =
     (case (if end0 = None then start else end0) of
        None \<Rightarrow> Some (Inl TypeError)
      | Some end1 \<Rightarrow>
          let end2 = end1 + (hours (interval cfg) - seconds 1)
          in case start of
               None \<Rightarrow> Some (Inl TypeError)
             | Some start1 \<Rightarrow>
                 (case load pd cfg s subdir start1 end2 DataFrame of
                    None \<Rightarrow> None
                  | Some (Inl e) \<Rightarrow> Some (Inl e)
                  | Some (Inr data) \<Rightarrow>
                      (case (case interval0 of
                               None \<Rightarrow> Inr (data, end2)
                             | Some i \<Rightarrow>
                                 if i > 900 then
                                   (let offset = (start1 - midnight start1) mod seconds i
                                    in case resample_sum (seconds i) offset data of
                                         Inl e \<Rightarrow> Inl e
                                       | Inr data1 \<Rightarrow> Inr (data1, end2 + seconds i))
                                 else Inr (data, end2)) of
                         Inl e \<Rightarrow> Some (Inl e)
                       | Inr (data2, end3) \<Rightarrow>
                           if start1 > end3 then Some (Inr (head 1 (truncate_before start1 data2)))
                           else Some (Inr (loc start1 end3 data2)))))"

subsection \<open>Notions used to state the properties\<close>

text \<open>
  The bucket starts the loop of \<open>get\<close> visits, written as a list: from \<open>time\<close> in
  steps of \<open>w\<close> while not after \<open>end\<close>. The list is finite for a positive step
  only; for another step it is left empty and not used.
\<close>

function candidates :: "int \<Rightarrow> int \<Rightarrow> int \<Rightarrow> int list" where
  "candidates w time end = (if 0 < w \<and> time \<le> end then time # candidates w (time + w) end else [])"
  by pat_completeness auto
termination
  by (relation "measure (\<lambda>(w, time, end). nat (end - time + 1))") auto

declare candidates.simps [simp del]

text \<open>
  One pass of the loop body for the candidate \<open>time\<close> (lines 147 and 148), and the
  passes for a list of candidates in turn, stopping at the first exception.
\<close>

definition visit :: "pandas \<Rightarrow> config \<Rightarrow> fs \<Rightarrow> string \<Rightarrow> frame \<Rightarrow> int \<Rightarrow> error + frame" where
  "visit pd cfg s subdir data time =
     (if exists cfg s time subdir then
        (case read_file pd cfg s (join (dir cfg) [subdir, format cfg time @ ''.csv'']) of
           Inl e \<Rightarrow> Inl e
         | Inr csv \<Rightarrow> combine_first data csv)
      else Inr data)"

fun visit_all :: "pandas \<Rightarrow> config \<Rightarrow> fs \<Rightarrow> string \<Rightarrow> int list \<Rightarrow> frame \<Rightarrow> error + frame" where
  "visit_all pd cfg s subdir [] data = Inr data"
| "visit_all pd cfg s subdir (t # ts) data =
     (case visit pd cfg s subdir data t of
        Inl e \<Rightarrow> Inl e
      | Inr data1 \<Rightarrow> visit_all pd cfg s subdir ts data1)"

text \<open>
  Whether \<open>get\<close> resamples (line 152), and the cut of lines 158 to 161.
\<close>

definition resampling :: "int option \<Rightarrow> bool" where
  "resampling interval0 = (case interval0 of None \<Rightarrow> False | Some i \<Rightarrow> i > 900)"

definition window :: "int \<Rightarrow> int \<Rightarrow> frame \<Rightarrow> frame" where
  "window start1 end3 data =
     (if start1 > end3 then head 1 (truncate_before start1 data) else loc start1 end3 data)"

text \<open>
  What \<open>get\<close> does with the table the loop has accumulated (lines 152 to 161), and
  the end the loop runs to (lines 141 to 143).
\<close>

definition finish :: "int option \<Rightarrow> int \<Rightarrow> int \<Rightarrow> frame \<Rightarrow> error + frame" where
  "finish interval0 start1 end2 data =
     (if resampling interval0 then
        (case resample_sum (seconds (the interval0))
                ((start1 - midnight start1) mod seconds (the interval0)) data of
           Inl e \<Rightarrow> Inl e
         | Inr data1 \<Rightarrow> Inr (window start1 (end2 + seconds (the interval0)) data1))
      else Inr (window start1 end2 data))"

definition loop_end :: "config \<Rightarrow> int \<Rightarrow> int option \<Rightarrow> int" where
  "loop_end cfg start1 end0 =
     (case end0 of None \<Rightarrow> start1 | Some e \<Rightarrow> e) + (hours (interval cfg) - seconds 1)"

subsection \<open>A small store\<close>

text \<open>
  A configuration whose file names are the epoch seconds of the bucket start (the
  pattern \<open>%s\<close>), with buckets of 24 hours and merging on, and two tables with one row
  each at the epoch: \<open>table_A\<close> with the column \<open>x\<close>, \<open>table_B\<close> with the columns
  \<open>x\<close> and \<open>y\<close>.
\<close>

definition epoch_seconds :: "int \<Rightarrow> string" where
  "epoch_seconds t = str_nat (nat (t div 1000000))"

definition cfg_day :: config where
  "cfg_day = \<lparr>dir = ''data'', merge = True, format = epoch_seconds, interval = 24,
              index_column = ''time'', index_unix = False\<rparr>"

definition no_files :: fs where
  "no_files = \<lparr>files = Map.empty, dirs = {}\<rparr>"

definition table_A :: frame where
  "table_A = \<lparr>index_name = Some ''time'', kind = Aware, names = [''x''],
              rows = [(0, [Some 1])]\<rparr>"

definition table_B :: frame where
  "table_B = \<lparr>index_name = Some ''time'', kind = Aware, names = [''x'', ''y''],
              rows = [(0, [Some 2, Some 3])]\<rparr>"

definition no_rows :: frame where
  "no_rows = \<lparr>index_name = Some ''time'', kind = Aware, names = [''x''], rows = []\<rparr>"

text \<open>
  File systems with one file \<open>data/0.csv\<close>: of zero bytes; with a header and no data
  line; with the index column called \<open>timestamp\<close>; with an index of epoch
  milliseconds; and the file that \<open>to_csv\<close> writes for \<open>table_A\<close>.
\<close>

definition store :: "csv \<Rightarrow> fs" where
  "store file = \<lparr>files = [''data/0.csv'' \<mapsto> file], dirs = {''data/''}\<rparr>"

definition file_header_only :: csv where
  "file_header_only = Csv ''time'' [''x''] Datetimes []"

definition file_timestamp :: csv where
  "file_timestamp = Csv ''timestamp'' [''x''] Datetimes [(0, [Some 1])]"

definition file_millis :: csv where
  "file_millis = Csv ''time'' [''x''] Integers [(1000, [Some 1])]"

definition file_A :: csv where
  "file_A = Csv ''time'' [''x''] Offsets [(0, [Some 1])]"

text \<open>
  A file system with the bucket files of day 0 and day 2 and none for day 1, each with
  one row at the start of its day.
\<close>

definition store_gap :: fs where
  "store_gap =
     \<lparr>files = [''data/0.csv'' \<mapsto> Csv ''time'' [''x''] Datetimes [(0, [Some 1])],
               ''data/172800.csv'' \<mapsto> Csv ''time'' [''x''] Datetimes [(172800000000, [Some 2])]],
      dirs = {''data/''}\<rparr>"

text \<open>
  A file system whose bucket files of day 0 and day 1 both have a row at the epoch, with
  different values.
\<close>

definition store_overlap :: fs where
  "store_overlap =
     \<lparr>files = [''data/0.csv'' \<mapsto> Csv ''time'' [''x''] Datetimes [(0, [Some 1])],
               ''data/86400.csv'' \<mapsto> Csv ''time'' [''x''] Datetimes
                                      [(0, [Some 9]), (86400000000, [Some 2])]],
      dirs = {''data/''}\<rparr>"

text \<open>
  A file system whose bucket file of the epoch has rows at 0:00 and 2:00, and one whose
  bucket file of 12:00 has rows at 12:00 and 13:00.
\<close>

definition store_hours :: fs where
  "store_hours =
     \<lparr>files = [''data/0.csv'' \<mapsto> Csv ''time'' [''x''] Datetimes
                                  [(0, [Some 1]), (7200000000, [Some 2])]],
      dirs = {''data/''}\<rparr>"

definition store_noon :: fs where
  "store_noon =
     \<lparr>files = [''data/43200.csv'' \<mapsto> Csv ''time'' [''x''] Datetimes
                                      [(43200000000, [Some 1]), (46800000000, [Some 2])]],
      dirs = {''data/''}\<rparr>"

text \<open>
  The file system after \<open>table_A\<close> is persisted to the empty one, and after
  \<open>table_B\<close> is persisted on top of that.
\<close>

definition stored_A :: "pandas \<Rightarrow> fs" where
  "stored_A pd = fst (persist pd cfg_day no_files (Some table_A) None None [])"

definition stored_AB :: "pandas \<Rightarrow> fs" where
  "stored_AB pd = fst (persist pd cfg_day (stored_A pd) (Some table_B) None None [])"

section \<open>Properties\<close>

subsection \<open>\<open>get\<close> without a start\<close>

text \<open>
  C10. With \<open>start\<close> and \<open>end\<close> both omitted, \<open>get\<close> raises: line 143 adds a
  \<open>timedelta\<close> to \<open>None\<close>. The result is the same \<open>TypeError\<close> whatever the file
  system holds, so no file is looked at before.
\<close>

theorem get_without_start_raises:
  "get pd cfg s None None interval0 subdir = Some (Inl TypeError)"
  by (simp add: get_def)

theorem get_without_start_raises_witness:
  "get Keeps_offset cfg_day no_files None None (Some 3600) [] = Some (Inl TypeError)"
  by (rule get_without_start_raises)

subsection \<open>\<open>persist\<close> of no table\<close>

text \<open>
  C3, as the code has it. \<open>persist\<close> tests \<open>data is not None\<close> and nothing else: for
  \<open>None\<close> it returns without an exception and leaves the file system as it was.
\<close>

theorem persist_none_noop:
  "persist pd cfg s None time file subdir = (s, None)"
  by (simp add: persist_def)

theorem persist_none_noop_witness:
  "persist Keeps_offset cfg_day no_files None (Some 0) None [] = (no_files, None)"
  by (rule persist_none_noop)

text \<open>
  C3 as stated fails for a table without rows: with no \<open>time\<close> given,
  \<open>data.index[0]\<close> raises \<open>IndexError\<close>; with a \<open>time\<close>, the directory is made
  and a file is written.
\<close>

theorem persist_no_rows_counterexample:
  "persist Keeps_offset cfg_day no_files (Some no_rows) None None [] = (no_files, Some IndexError)
   \<and> fst (persist Keeps_offset cfg_day no_files (Some no_rows) (Some 0) None []) \<noteq> no_files"
proof
  show "persist Keeps_offset cfg_day no_files (Some no_rows) None None []
        = (no_files, Some IndexError)"
    by (simp add: persist_def no_rows_def)
next
  have "''data/'' \<in> dirs (fst (persist Keeps_offset cfg_day no_files (Some no_rows) (Some 0) None []))"
    by (simp add: persist_def no_rows_def cfg_day_def no_files_def join_def join2_def
        path_exists_def makedirs_def write_file_def tz_convert_def isfile_def Let_def)
  moreover have "''data/'' \<notin> dirs no_files"
    by (simp add: no_files_def)
  ultimately show "fst (persist Keeps_offset cfg_day no_files (Some no_rows) (Some 0) None [])
                   \<noteq> no_files"
    by auto
qed

subsection \<open>Reading a file without data\<close>

lemma read_file_index_name:
  "read_file pd cfg s path = Inr f \<Longrightarrow> index_name f = Some ''time''"
  by (auto simp: read_file_def split: sum.splits)

lemma union_index_no_rows:
  "rows b = [] \<Longrightarrow> distinct (index a) \<Longrightarrow> length (union_index a b) = length (rows a)"
  by (simp add: union_index_def index_def distinct_remdups_id)

text \<open>
  C8, as the code has it. A file that has its header line (with the configured index
  column) and no data line is read without an exception, as a table without rows whose
  index is named \<open>time\<close>, the name every table read by \<open>_read_file\<close> carries.
  Unioning it into a table leaves that table as it is, and every slice of it is empty.
\<close>

theorem read_file_header_only:
  assumes "files s path = Some (Csv (index_column cfg) header text [])"
  shows "(\<exists>f. read_file pd cfg s path = Inr f
            \<and> f = \<lparr>index_name = Some ''time'', kind = Plain, names = mangle [] header, rows = []\<rparr>
            \<and> (\<forall>a. distinct (index a) \<longrightarrow> combine_first a f = Inr a)
            \<and> (\<forall>lo hi. rows (loc lo hi f) = []))
         \<and> (\<forall>s' path' g. read_file pd cfg s' path' = Inr g \<longrightarrow> index_name g = Some ''time'')"
proof -
  let ?f = "\<lparr>index_name = Some ''time'', kind = Plain, names = mangle [] header, rows = []\<rparr>"
  have "read_file pd cfg s path = Inr ?f"
    using assms by (simp add: read_file_def open_csv_def read_csv_def empty_def)
  moreover have "combine_first a ?f = Inr a" if "distinct (index a)" for a
    using that union_index_no_rows [of ?f a] by (simp add: combine_first_def empty_def)
  moreover have "rows (loc lo hi ?f) = []" for lo hi
    by (simp add: loc_def)
  ultimately show ?thesis
    using read_file_index_name by blast
qed

theorem read_file_header_only_witness:
  "read_file Keeps_offset cfg_day (store file_header_only) ''data/0.csv''
   = Inr \<lparr>index_name = Some ''time'', kind = Plain, names = [''x''], rows = []\<rparr>"
proof -
  have "files (store file_header_only) ''data/0.csv''
        = Some (Csv (index_column cfg_day) [''x''] Datetimes [])"
    by (simp add: store_def file_header_only_def cfg_day_def)
  from read_file_header_only [OF this, of Keeps_offset] show ?thesis
    by simp
qed

text \<open>
  C8 as stated fails for a file of zero bytes: \<open>read_csv\<close> raises \<open>EmptyDataError\<close>
  and \<open>_read_file\<close> does not catch it.
\<close>

theorem read_file_zero_bytes_counterexample:
  "read_file Keeps_offset cfg_day (store Zero_bytes) ''data/0.csv'' = Inl EmptyDataError"
  by (simp add: read_file_def open_csv_def store_def read_csv_def)

subsection \<open>The read of the merge and \<open>_read_file\<close>\<close>

text \<open>
  C9, as the code has it. The read inside \<open>_write_file\<close> takes the column
  \<open>time\<close> as index, the name \<open>_write_file\<close> itself writes, and converts no epoch
  milliseconds, whatever index column and \<open>index_unix\<close> are configured. When the
  configured index column is \<open>time\<close> and \<open>index_unix\<close> is off, it gives what
  \<open>_read_file\<close> gives for every file whose parse is empty or has an index without
  time zone. An index parsed with a time zone is not covered by this statement.
\<close>

theorem merge_read_eq_read_file:
  assumes "index_column cfg = ''time''" and "\<not> index_unix cfg"
    and "\<forall>f. open_csv pd s path ''time'' = Inr f \<longrightarrow> empty f \<or> kind f \<noteq> Aware"
  shows "merge_read pd s path = read_file pd cfg s path"
proof (cases "open_csv pd s path ''time''")
  case (Inl e)
  then show ?thesis
    using assms(1) by (simp add: merge_read_def read_file_def)
next
  case (Inr f)
  have name: "index_name f = Some ''time''"
    using Inr by (auto simp: open_csv_def read_csv_def split: option.splits csv.splits if_splits)
  show ?thesis
  proof (cases "empty f")
    case True
    then show ?thesis
      using Inr assms(1) name by (simp add: merge_read_def read_file_def)
  next
    case False
    with assms(3) Inr have "kind f \<noteq> Aware"
      by blast
    then show ?thesis
      using Inr assms(1,2) name False
      by (cases "kind f") (simp_all add: merge_read_def read_file_def tzinfo_def tz_localize_def)
  qed
qed

theorem merge_read_eq_read_file_witness:
  "merge_read Drops_offset (store file_A) ''data/0.csv''
   = read_file Drops_offset cfg_day (store file_A) ''data/0.csv''
   \<and> read_file Drops_offset cfg_day (store file_A) ''data/0.csv'' = Inr table_A"
proof -
  have "index_column cfg_day = ''time''" and "\<not> index_unix cfg_day"
    by (simp_all add: cfg_day_def)
  moreover have "\<forall>f. open_csv Drops_offset (store file_A) ''data/0.csv'' ''time'' = Inr f
                     \<longrightarrow> empty f \<or> kind f \<noteq> Aware"
    by (simp add: open_csv_def store_def file_A_def read_csv_def parsed_kind_def)
  ultimately have "merge_read Drops_offset (store file_A) ''data/0.csv''
                   = read_file Drops_offset cfg_day (store file_A) ''data/0.csv''"
    by (rule merge_read_eq_read_file)
  moreover have "merge_read Drops_offset (store file_A) ''data/0.csv'' = Inr table_A"
    by (simp add: merge_read_def open_csv_def store_def file_A_def read_csv_def
        parsed_kind_def empty_def tz_localize_def table_A_def)
  ultimately show ?thesis
    by simp
qed

text \<open>
  C9 as stated fails on the configured index column and on the epoch conversion: with
  the index column configured as \<open>timestamp\<close>, \<open>_read_file\<close> reads the file and
  the merge finds no column \<open>time\<close>; with \<open>index_unix\<close> on, \<open>_read_file\<close>
  converts the milliseconds and the merge is left with numbers where it wants dates.
\<close>

theorem merge_read_differs_counterexample:
  "read_file Keeps_offset (cfg_day\<lparr>index_column := ''timestamp''\<rparr>) (store file_timestamp) ''data/0.csv''
     = Inr table_A
   \<and> merge_read Keeps_offset (store file_timestamp) ''data/0.csv'' = Inl ValueError
   \<and> read_file Keeps_offset (cfg_day\<lparr>index_unix := True\<rparr>) (store file_millis) ''data/0.csv''
     = Inr (table_A\<lparr>rows := [(1000000, [Some 1])]\<rparr>)
   \<and> merge_read Keeps_offset (store file_millis) ''data/0.csv'' = Inl AttributeError"
  by (simp add: read_file_def merge_read_def open_csv_def store_def read_csv_def cfg_day_def
      file_timestamp_def file_millis_def table_A_def parsed_kind_def empty_def
      tzinfo_def tz_localize_def to_datetime_ms_def)

subsection \<open>The union of two tables\<close>

lemma map_of_tabulate:
  "map_of (map (\<lambda>t. (t, g t)) xs) t = (if t \<in> set xs then Some (g t) else None)"
  by (induction xs) auto

lemma map_of_zip_absent:
  "c \<notin> set xs \<Longrightarrow> map_of (zip xs ys) c = None"
proof -
  have "c \<notin> fst ` set (zip xs ys)" if "c \<notin> set xs"
    using that by (auto dest: set_zip_leftD)
  then show "c \<notin> set xs \<Longrightarrow> map_of (zip xs ys) c = None"
    by (simp add: map_of_eq_None_iff)
qed

lemma cell_no_row: "t \<notin> set (index f) \<Longrightarrow> cell f c t = None"
proof -
  assume "t \<notin> set (index f)"
  then have "map_of (rows f) t = None"
    by (simp add: index_def map_of_eq_None_iff)
  then show ?thesis
    by (simp add: cell_def)
qed

lemma cell_no_column: "c \<notin> set (names f) \<Longrightarrow> cell f c t = None"
  by (simp add: cell_def map_of_zip_absent split: option.splits)

lemma cell_empty: "empty f \<Longrightarrow> cell f c t = None"
  by (auto simp: cell_def empty_def split: option.splits)

lemma cell_tabulate:
  "cell \<lparr>index_name = n, kind = k, names = cols,
         rows = map (\<lambda>t. (t, map (\<lambda>c. g c t) cols)) ts\<rparr> c t
   = (if t \<in> set ts \<and> c \<in> set cols then g c t else None)"
  by (simp add: cell_def map_of_tabulate map_of_zip_map)

lemma set_union_index: "set (union_index a b) = set (index a) \<union> set (index b)"
  by (simp add: union_index_def)

lemma cell_combine_first:
  assumes "combine_first a b = Inr r"
  shows "cell r c t = (case cell a c t of Some v \<Rightarrow> Some v | None \<Rightarrow> cell b c t)"
proof -
  consider (left) "empty b" "r = a" | (right) "empty a" "r = b"
    | (both) "r = \<lparr>index_name = union_name a b,
                kind = (if rows a = [] then kind b else kind a),
                names = names a @ filter (\<lambda>c. c \<notin> set (names a)) (names b),
                rows = map (\<lambda>t. (t, map (\<lambda>c. case cell a c t of
                                                  Some v \<Rightarrow> Some v
                                                | None \<Rightarrow> cell b c t) (names a @ filter (\<lambda>c. c \<notin> set (names a)) (names b))))
                           (union_index a b)\<rparr>"
    using assms by (auto simp: combine_first_def Let_def split: if_splits)
  then show ?thesis
  proof cases
    case left
    then show ?thesis by (simp add: cell_empty split: option.splits)
  next
    case right
    then show ?thesis by (simp add: cell_empty)
  next
    case both
    let ?cols = "names a @ filter (\<lambda>c. c \<notin> set (names a)) (names b)"
    let ?v = "case cell a c t of Some v \<Rightarrow> Some v | None \<Rightarrow> cell b c t"
    have r: "cell r c t = (if t \<in> set (union_index a b) \<and> c \<in> set ?cols then ?v else None)"
      unfolding both by (rule cell_tabulate)
    show ?thesis
    proof (cases "t \<in> set (union_index a b) \<and> c \<in> set ?cols")
      case True
      with r show ?thesis by simp
    next
      case False
      then have "?v = None"
        by (auto simp: set_union_index cell_no_row cell_no_column)
      with r False show ?thesis by simp
    qed
  qed
qed

subsection \<open>The loop of \<open>get\<close>\<close>

lemma candidates_closed_form:
  assumes "0 < w"
  shows "candidates w time end = map (\<lambda>k. time + int k * w) [0..<nat ((end - time) div w + 1)]"
  using assms
proof (induction w time "end" rule: candidates.induct)
  case (1 w time "end")
  show ?case
  proof (cases "time \<le> end")
    case False
    then have "(end - time) div w < 0"
      using "1.prems" by (simp add: div_neg_pos_less0)
    then show ?thesis
      using False by (simp add: candidates.simps [of w time "end"])
  next
    case True
    then have nn: "0 \<le> (end - time) div w"
      using "1.prems" by (simp add: pos_imp_zdiv_nonneg_iff)
    have step: "(end - (time + w)) div w = (end - time) div w - 1"
      using "1.prems" by (metis add_diff_cancel_right' diff_diff_eq div_add_self2 less_irrefl diff_add_cancel)
    have IH: "candidates w (time + w) end
              = map (\<lambda>k. time + w + int k * w) [0..<nat ((end - time) div w)]"
      using "1.IH" "1.prems" True step by simp
    have "[0..<nat ((end - time) div w + 1)] = 0 # map Suc [0..<nat ((end - time) div w)]"
      using nn by (simp add: nat_add_distrib upt_conv_Cons map_Suc_upt del: upt_Suc)
    then show ?thesis
      using True "1.prems" IH
      by (simp add: candidates.simps [of w time "end"] comp_def algebra_simps)
  qed
qed

lemma load_eq_visit_all:
  assumes "0 < interval cfg"
  shows "load pd cfg s subdir time end data
         = Some (visit_all pd cfg s subdir (candidates (hours (interval cfg)) time end) data)"
proof -
  have w: "0 < hours (interval cfg)"
    using assms by (simp add: hours_def)
  show ?thesis
    using w
  proof (induction "hours (interval cfg)" time "end" arbitrary: data rule: candidates.induct)
    case (1 time "end")
    show ?case
    proof (cases "time \<le> end")
      case False
      then show ?thesis
        by (simp add: load.simps [of pd cfg s subdir time "end" data] candidates.simps [of _ time "end"])
    next
      case True
      show ?thesis
      proof (cases "visit pd cfg s subdir data time")
        case (Inl e)
        then show ?thesis
          using True "1.prems"
          by (auto simp: load.simps [of pd cfg s subdir time "end" data]
              candidates.simps [of _ time "end"] visit_def split: if_splits sum.splits)
      next
        case (Inr data1)
        have "load pd cfg s subdir (time + hours (interval cfg)) end data1
              = Some (visit_all pd cfg s subdir
                        (candidates (hours (interval cfg)) (time + hours (interval cfg)) end) data1)"
          using "1.hyps" True "1.prems" by simp
        then show ?thesis
          using True "1.prems" Inr
          by (auto simp: load.simps [of pd cfg s subdir time "end" data]
              candidates.simps [of _ time "end"] visit_def split: if_splits sum.splits)
      qed
    qed
  qed
qed

lemma get_eq_load:
  "get pd cfg s (Some start1) end0 interval0 subdir
   = (case load pd cfg s subdir start1 (loop_end cfg start1 end0) DataFrame of
        None \<Rightarrow> None
      | Some (Inl e) \<Rightarrow> Some (Inl e)
      | Some (Inr data) \<Rightarrow> Some (finish interval0 start1 (loop_end cfg start1 end0) data))"
  by (cases end0; cases interval0)
     (auto simp: get_def loop_end_def finish_def resampling_def window_def Let_def
           split: option.splits sum.splits)

lemma load_step:
  "load pd cfg s subdir time end data
   = (if time \<le> end then
        (case visit pd cfg s subdir data time of
           Inl e \<Rightarrow> Some (Inl e)
         | Inr data1 \<Rightarrow> load pd cfg s subdir (time + hours (interval cfg)) end data1)
      else Some (Inr data))"
  by (subst load.simps) (simp add: visit_def split: sum.splits)

lemma visit_cells:
  assumes "exists cfg s t subdir" and "visit pd cfg s subdir data t = Inr data1"
  shows "\<exists>chunk. read_file pd cfg s (join (dir cfg) [subdir, format cfg t @ ''.csv'']) = Inr chunk
            \<and> combine_first data chunk = Inr data1
            \<and> (\<forall>c \<tau>. cell data1 c \<tau>
                  = (case cell data c \<tau> of Some v \<Rightarrow> Some v | None \<Rightarrow> cell chunk c \<tau>))"
  using assms by (auto simp: visit_def cell_combine_first split: sum.splits)

lemma visit_missing: "\<not> exists cfg s t subdir \<Longrightarrow> visit pd cfg s subdir data t = Inr data"
  by (simp add: visit_def)

lemma visit_all_filter:
  "visit_all pd cfg s subdir (filter (\<lambda>t. exists cfg s t subdir) ts) data
   = visit_all pd cfg s subdir ts data"
  by (induction ts arbitrary: data) (auto simp: visit_missing split: sum.splits)

text \<open>
  The pass over a candidate whose file exists unions the file read into the accumulator
  with the accumulator first (lemma \<open>visit_cells\<close>): a cell the accumulator has keeps
  its value, and the file read fills the cells the accumulator lacks.
\<close>

lemma candidates_hour:
  "candidates (hours (interval cfg_day)) 0 (loop_end cfg_day 0 (Some (hours 1))) = [0, hours 24]"
  by (simp add: candidates.simps hours_def seconds_def loop_end_def cfg_day_def)

lemma read_overlap_0:
  "read_file pd cfg_day store_overlap ''data/0.csv'' = Inr table_A"
  by (simp add: read_file_def open_csv_def store_overlap_def read_csv_def cfg_day_def
      table_A_def parsed_kind_def empty_def tzinfo_def tz_localize_def)

lemma read_overlap_1:
  "read_file pd cfg_day store_overlap ''data/86400.csv''
   = Inr (table_A\<lparr>rows := [(0, [Some 9]), (86400000000, [Some 2])]\<rparr>)"
  by (simp add: read_file_def open_csv_def store_overlap_def read_csv_def cfg_day_def
      table_A_def parsed_kind_def empty_def tzinfo_def tz_localize_def)

lemma names_day:
  "join (dir cfg_day) [[], format cfg_day 0 @ ''.csv''] = ''data/0.csv''"
  "join (dir cfg_day) [[], format cfg_day (hours 24) @ ''.csv''] = ''data/86400.csv''"
  "join (dir cfg_day) [[], format cfg_day (hours 48) @ ''.csv''] = ''data/172800.csv''"
  by (simp_all add: cfg_day_def join_def join2_def epoch_seconds_def hours_def str_nat.simps)

lemma exists_overlap:
  "exists cfg_day store_overlap 0 []" "exists cfg_day store_overlap (hours 24) []"
  by (simp_all add: exists_def names_day) (simp_all add: store_overlap_def path_exists_def)

lemma visit_overlap_0:
  "visit pd cfg_day store_overlap [] DataFrame 0 = Inr table_A"
  by (simp add: visit_def exists_overlap names_day read_overlap_0)
     (simp add: combine_first_def DataFrame_def table_A_def empty_def union_index_def index_def)

lemma visit_overlap_1:
  "visit pd cfg_day store_overlap [] table_A (hours 24)
   = Inr (table_A\<lparr>rows := [(0, [Some 1]), (86400000000, [Some 2])]\<rparr>)"
  by (simp add: visit_def exists_overlap names_day read_overlap_1)
     (simp add: combine_first_def table_A_def empty_def union_index_def index_def cell_def
        union_name_def)

lemma visit_all_overlap:
  "visit_all pd cfg_day store_overlap [] [0, hours 24] DataFrame
   = Inr (table_A\<lparr>rows := [(0, [Some 1]), (86400000000, [Some 2])]\<rparr>)"
  by (simp add: visit_overlap_0 visit_overlap_1)

lemma load_overlap:
  "load pd cfg_day store_overlap [] 0 (loop_end cfg_day 0 (Some (hours 1))) DataFrame
   = Some (Inr (table_A\<lparr>rows := [(0, [Some 1]), (86400000000, [Some 2])]\<rparr>))"
proof -
  have "0 < interval cfg_day"
    by (simp add: cfg_day_def)
  then have "load pd cfg_day store_overlap [] 0 (loop_end cfg_day 0 (Some (hours 1))) DataFrame
             = Some (visit_all pd cfg_day store_overlap []
                       (candidates (hours (interval cfg_day)) 0
                          (loop_end cfg_day 0 (Some (hours 1)))) DataFrame)"
    by (rule load_eq_visit_all)
  then show ?thesis
    by (simp only: candidates_hour visit_all_overlap)
qed

text \<open>
  C7, on the code. The claim has the candidates run from \<open>start\<close> in steps of the
  bucket width while they are not after the end of the query, which for a caller who
  gives an end is that end. With buckets of 24 hours, \<open>start\<close> 0:00 and \<open>end\<close>
  1:00 of day 0, the loop of the code runs to 1:00 plus 24 hours less one second (line
  143): it also visits the candidate 0:00 of day 1, later than the caller's end, reads
  its file and returns the row of day 1 that only this file has. The union itself is as
  the claim says: where both files have the cell at the epoch, the value 1 of the file
  visited first stays and the value 9 of the second is dropped.
\<close>

theorem get_visits_bucket_after_end:
  "exists cfg_day store_overlap 86400000000 []
   \<and> (3600000000 :: int) < 86400000000
   \<and> get Keeps_offset cfg_day store_overlap (Some 0) (Some 3600000000) None []
     = Some (Inr \<lparr>index_name = Some ''time'', kind = Aware, names = [''x''],
                  rows = [(0, [Some 1]), (86400000000, [Some 2])]\<rparr>)"
proof (intro conjI)
  show "exists cfg_day store_overlap 86400000000 []"
    using exists_overlap(2) by (simp add: hours_def)
  show "(3600000000 :: int) < 86400000000"
    by simp
  have "0 \<le> loop_end cfg_day 0 (Some (hours 1))"
    by (simp add: loop_end_def cfg_day_def hours_def seconds_def)
  then have "get Keeps_offset cfg_day store_overlap (Some 0) (Some (hours 1)) None []
        = Some (Inr (loc 0 (loop_end cfg_day 0 (Some (hours 1)))
                       (table_A\<lparr>rows := [(0, [Some 1]), (86400000000, [Some 2])]\<rparr>)))"
    by (simp add: get_eq_load load_overlap finish_def resampling_def window_def)
  then show "get Keeps_offset cfg_day store_overlap (Some 0) (Some 3600000000) None []
     = Some (Inr \<lparr>index_name = Some ''time'', kind = Aware, names = [''x''],
                  rows = [(0, [Some 1]), (86400000000, [Some 2])]\<rparr>)"
    by (simp add: loc_def table_A_def loop_end_def cfg_day_def hours_def seconds_def)
qed

theorem get_visits_bucket_after_end_witness:
  "\<exists>r. get Keeps_offset cfg_day store_overlap (Some 0) (Some 3600000000) None [] = Some (Inr r)
       \<and> 86400000000 \<in> set (index r) \<and> cell r ''x'' 0 = Some 1"
  using get_visits_bucket_after_end by (simp add: index_def cell_def)

subsection \<open>Buckets without a file\<close>

lemma index_combine_first:
  assumes "combine_first a b = Inr r"
  shows "set (index r) \<subseteq> set (index a) \<union> set (index b)"
proof -
  consider "r = a" | "r = b" | "index r = union_index a b"
    using assms by (auto simp: combine_first_def Let_def index_def comp_def split: if_splits)
  then show ?thesis
    by cases (auto simp: set_union_index)
qed

lemma visit_index:
  assumes "visit pd cfg s subdir data t = Inr data1" and "\<tau> \<in> set (index data1)"
  shows "\<tau> \<in> set (index data)
         \<or> (exists cfg s t subdir
            \<and> (\<exists>chunk. read_file pd cfg s (join (dir cfg) [subdir, format cfg t @ ''.csv''])
                         = Inr chunk \<and> \<tau> \<in> set (index chunk)))"
proof (cases "exists cfg s t subdir")
  case False
  with assms show ?thesis by (simp add: visit_def)
next
  case True
  with assms(1) obtain chunk
    where chunk: "read_file pd cfg s (join (dir cfg) [subdir, format cfg t @ ''.csv'']) = Inr chunk"
      and "combine_first data chunk = Inr data1"
    by (auto simp: visit_def split: sum.splits)
  with assms(2) index_combine_first have "\<tau> \<in> set (index data) \<or> \<tau> \<in> set (index chunk)"
    by blast
  with True chunk show ?thesis by blast
qed

lemma visit_all_index:
  assumes "visit_all pd cfg s subdir ts data = Inr r" and "\<tau> \<in> set (index r)"
  shows "\<tau> \<in> set (index data)
         \<or> (\<exists>t\<in>set ts. exists cfg s t subdir
              \<and> (\<exists>chunk. read_file pd cfg s (join (dir cfg) [subdir, format cfg t @ ''.csv''])
                           = Inr chunk \<and> \<tau> \<in> set (index chunk)))"
  using assms
proof (induction ts arbitrary: data)
  case Nil
  then show ?case by simp
next
  case (Cons t ts)
  from Cons.prems(1) obtain data1
    where v: "visit pd cfg s subdir data t = Inr data1"
      and rest: "visit_all pd cfg s subdir ts data1 = Inr r"
    by (auto split: sum.splits)
  from Cons.IH [OF rest Cons.prems(2)] show ?case
  proof
    assume "\<tau> \<in> set (index data1)"
    with v visit_index show ?thesis by fastforce
  next
    assume "\<exists>t\<in>set ts. exists cfg s t subdir
              \<and> (\<exists>chunk. read_file pd cfg s (join (dir cfg) [subdir, format cfg t @ ''.csv''])
                           = Inr chunk \<and> \<tau> \<in> set (index chunk))"
    then show ?thesis by auto
  qed
qed

lemma rows_window: "set (rows (window lo hi f)) \<subseteq> set (rows f)"
proof -
  have "set (take n (filter P xs)) \<subseteq> set xs" for n P and xs :: "(int \<times> real option list) list"
    using set_take_subset [of n "filter P xs"] by auto
  then show ?thesis
    by (simp add: window_def head_def truncate_before_def loc_def)
qed

lemma index_window: "set (index (window lo hi f)) \<subseteq> set (index f)"
  using rows_window [of lo hi f] by (auto simp: index_def)

lemma window_DataFrame: "window lo hi DataFrame = DataFrame"
  by (simp add: window_def head_def truncate_before_def loc_def DataFrame_def)

lemma finish_plain: "\<not> resampling interval0 \<Longrightarrow> finish interval0 lo hi f = Inr (window lo hi f)"
  by (simp add: finish_def)

lemma get_eq_visit_all:
  assumes "0 < interval cfg"
  shows "get pd cfg s (Some start1) end0 interval0 subdir
         = Some (case visit_all pd cfg s subdir
                        (candidates (hours (interval cfg)) start1 (loop_end cfg start1 end0))
                        DataFrame of
                   Inl e \<Rightarrow> Inl e
                 | Inr acc \<Rightarrow> finish interval0 start1 (loop_end cfg start1 end0) acc)"
  by (simp add: get_eq_load load_eq_visit_all [OF assms] split: sum.splits)

text \<open>
  C6, as the code has it. With a positive bucket width and no resampling asked for,
  \<open>get\<close> returns what the visits of the candidates whose file exists give, cut to the
  window: a candidate without a file changes nothing and raises nothing, so an exception
  can only come from a file that is there. When no candidate has a file the result is
  the empty table. Every row of a result is a row of the file read for some candidate
  that exists: no row is made up for a bucket without a file.
\<close>

theorem get_skips_missing_chunks:
  assumes "0 < interval cfg" and "\<not> resampling interval0"
  shows "get pd cfg s (Some start1) end0 interval0 subdir
         = Some (case visit_all pd cfg s subdir
                        (filter (\<lambda>t. exists cfg s t subdir)
                           (candidates (hours (interval cfg)) start1 (loop_end cfg start1 end0)))
                        DataFrame of
                   Inl e \<Rightarrow> Inl e
                 | Inr acc \<Rightarrow> Inr (window start1 (loop_end cfg start1 end0) acc))
       \<and> ((\<forall>t\<in>set (candidates (hours (interval cfg)) start1 (loop_end cfg start1 end0)).
              \<not> exists cfg s t subdir)
            \<longrightarrow> get pd cfg s (Some start1) end0 interval0 subdir = Some (Inr DataFrame))
       \<and> (\<forall>r. get pd cfg s (Some start1) end0 interval0 subdir = Some (Inr r) \<longrightarrow>
            (\<forall>\<tau>\<in>set (index r).
               \<exists>t\<in>set (candidates (hours (interval cfg)) start1 (loop_end cfg start1 end0)).
                 exists cfg s t subdir
                 \<and> (\<exists>chunk. read_file pd cfg s (join (dir cfg) [subdir, format cfg t @ ''.csv''])
                              = Inr chunk \<and> \<tau> \<in> set (index chunk))))"
proof -
  let ?ts = "candidates (hours (interval cfg)) start1 (loop_end cfg start1 end0)"
  let ?hi = "loop_end cfg start1 end0"
  have g: "get pd cfg s (Some start1) end0 interval0 subdir
           = Some (case visit_all pd cfg s subdir ?ts DataFrame of
                     Inl e \<Rightarrow> Inl e
                   | Inr acc \<Rightarrow> Inr (window start1 ?hi acc))"
    by (simp add: get_eq_visit_all [OF assms(1)] finish_plain [OF assms(2)] split: sum.splits)
  have first: "get pd cfg s (Some start1) end0 interval0 subdir
           = Some (case visit_all pd cfg s subdir (filter (\<lambda>t. exists cfg s t subdir) ?ts)
                          DataFrame of
                     Inl e \<Rightarrow> Inl e
                   | Inr acc \<Rightarrow> Inr (window start1 ?hi acc))"
    by (simp only: g visit_all_filter)
  have none: "get pd cfg s (Some start1) end0 interval0 subdir = Some (Inr DataFrame)"
    if "\<forall>t\<in>set ?ts. \<not> exists cfg s t subdir"
  proof -
    from that have "filter (\<lambda>t. exists cfg s t subdir) ?ts = []"
      by (simp add: filter_empty_conv)
    with first show ?thesis
      by (simp add: window_DataFrame)
  qed
  have rows_from_chunks:
    "\<exists>t\<in>set ?ts. exists cfg s t subdir
        \<and> (\<exists>chunk. read_file pd cfg s (join (dir cfg) [subdir, format cfg t @ ''.csv''])
                     = Inr chunk \<and> \<tau> \<in> set (index chunk))"
    if r: "get pd cfg s (Some start1) end0 interval0 subdir = Some (Inr r)"
      and \<tau>: "\<tau> \<in> set (index r)" for r \<tau>
  proof -
    from r g obtain acc
      where acc: "visit_all pd cfg s subdir ?ts DataFrame = Inr acc"
        and "r = window start1 ?hi acc"
      by (auto split: sum.splits)
    with \<tau> index_window have "\<tau> \<in> set (index acc)"
      by blast
    from visit_all_index [OF acc this] show ?thesis
      by (simp add: DataFrame_def index_def)
  qed
  from first none rows_from_chunks show ?thesis
    by blast
qed

lemma candidates_two_days:
  "candidates (hours (interval cfg_day)) 0 (loop_end cfg_day 0 (Some (hours 48)))
   = [0, hours 24, hours 48]"
  by (simp add: candidates.simps hours_def seconds_def loop_end_def cfg_day_def)

lemma exists_gap:
  "exists cfg_day store_gap 0 []" "\<not> exists cfg_day store_gap (hours 24) []"
  "exists cfg_day store_gap (hours 48) []"
  by (simp_all add: exists_def names_day) (simp_all add: store_gap_def path_exists_def)

lemma read_gap:
  "read_file pd cfg_day store_gap ''data/0.csv'' = Inr table_A"
  "read_file pd cfg_day store_gap ''data/172800.csv''
   = Inr (table_A\<lparr>rows := [(172800000000, [Some 2])]\<rparr>)"
  by (simp_all add: read_file_def open_csv_def store_gap_def read_csv_def cfg_day_def
      table_A_def parsed_kind_def empty_def tzinfo_def tz_localize_def)

lemma visit_gap:
  "visit pd cfg_day store_gap [] DataFrame 0 = Inr table_A"
  "visit pd cfg_day store_gap [] table_A (hours 24) = Inr table_A"
  "visit pd cfg_day store_gap [] table_A (hours 48)
   = Inr (table_A\<lparr>rows := [(0, [Some 1]), (172800000000, [Some 2])]\<rparr>)"
  by (simp_all add: visit_def exists_gap names_day read_gap)
     (simp_all add: combine_first_def DataFrame_def table_A_def empty_def union_index_def
        index_def cell_def union_name_def)

lemma visit_all_gap:
  "visit_all pd cfg_day store_gap [] [0, hours 24, hours 48] DataFrame
   = Inr (table_A\<lparr>rows := [(0, [Some 1]), (172800000000, [Some 2])]\<rparr>)"
  by (simp add: visit_gap)

theorem get_skips_missing_chunks_witness:
  "0 < interval cfg_day \<and> \<not> resampling None
   \<and> get Keeps_offset cfg_day store_gap (Some 0) (Some (hours 48)) None []
     = Some (Inr \<lparr>index_name = Some ''time'', kind = Aware, names = [''x''],
                  rows = [(0, [Some 1]), (172800000000, [Some 2])]\<rparr>)"
proof -
  have w: "0 < interval cfg_day" and n: "\<not> resampling None"
    by (simp_all add: cfg_day_def resampling_def)
  have "filter (\<lambda>t. exists cfg_day store_gap t [])
          (candidates (hours (interval cfg_day)) 0 (loop_end cfg_day 0 (Some (hours 48))))
        = [0, hours 48]"
    by (simp add: candidates_two_days exists_gap)
  moreover have "visit_all Keeps_offset cfg_day store_gap [] [0, hours 48] DataFrame
        = Inr (table_A\<lparr>rows := [(0, [Some 1]), (172800000000, [Some 2])]\<rparr>)"
    by (simp add: visit_gap)
  moreover have "0 \<le> loop_end cfg_day 0 (Some (hours 48))"
    by (simp add: loop_end_def cfg_day_def hours_def seconds_def)
  moreover have "172800000000 \<le> loop_end cfg_day 0 (Some (hours 48))"
    by (simp add: loop_end_def cfg_day_def hours_def seconds_def)
  ultimately have "get Keeps_offset cfg_day store_gap (Some 0) (Some (hours 48)) None []
     = Some (Inr \<lparr>index_name = Some ''time'', kind = Aware, names = [''x''],
                  rows = [(0, [Some 1]), (172800000000, [Some 2])]\<rparr>)"
    using get_skips_missing_chunks [OF w n, of Keeps_offset store_gap 0 "Some (hours 48)" "[]"]
    by (simp add: window_def loc_def table_A_def)
  with w n show ?thesis
    by blast
qed

text \<open>
  C6 as stated fails when resampling is asked for. With no file at all, the empty table
  of \<open>pd.DataFrame()\<close> has no \<open>DatetimeIndex\<close> and \<open>resample\<close> raises
  \<open>TypeError\<close>. With the files of day 0 and day 2 and none for day 1, resampling to
  one day fills the bin of day 1: the result has a row for the bucket that is missing.
\<close>

theorem get_resampled_gap_counterexample:
  "get Keeps_offset cfg_day no_files (Some 0) None (Some 3600) [] = Some (Inl TypeError)
   \<and> \<not> exists cfg_day store_gap 86400000000 []
   \<and> get Keeps_offset cfg_day store_gap (Some 0) (Some (hours 48)) (Some 86400) []
     = Some (Inr \<lparr>index_name = Some ''time'', kind = Aware, names = [''x''],
                  rows = [(0, [Some 1]), (86400000000, [Some 0]), (172800000000, [Some 2])]\<rparr>)"
proof (intro conjI)
  have "candidates (hours (interval cfg_day)) 0 (loop_end cfg_day 0 None) = [0]"
    by (simp add: candidates.simps hours_def seconds_def loop_end_def cfg_day_def)
  moreover have "visit Keeps_offset cfg_day no_files [] DataFrame 0 = Inr DataFrame"
    by (simp add: visit_def exists_def no_files_def path_exists_def)
  ultimately have "visit_all Keeps_offset cfg_day no_files []
                     (candidates (hours (interval cfg_day)) 0 (loop_end cfg_day 0 None)) DataFrame
                   = Inr DataFrame"
    by simp
  moreover have "finish (Some 3600) 0 (loop_end cfg_day 0 None) DataFrame = Inl TypeError"
    by (simp add: finish_def resampling_def resample_sum_def DataFrame_def)
  moreover have "0 < interval cfg_day"
    by (simp add: cfg_day_def)
  ultimately show "get Keeps_offset cfg_day no_files (Some 0) None (Some 3600) []
                   = Some (Inl TypeError)"
    by (simp add: get_eq_visit_all)
next
  show "\<not> exists cfg_day store_gap 86400000000 []"
    using exists_gap(2) by (simp add: hours_def)
next
  have "finish (Some 86400) 0 (loop_end cfg_day 0 (Some (hours 48)))
          (table_A\<lparr>rows := [(0, [Some 1]), (172800000000, [Some 2])]\<rparr>)
        = Inr \<lparr>index_name = Some ''time'', kind = Aware, names = [''x''],
               rows = [(0, [Some 1]), (86400000000, [Some 0]), (172800000000, [Some 2])]\<rparr>"
    by code_simp
  moreover have "visit_all Keeps_offset cfg_day store_gap []
                   (candidates (hours (interval cfg_day)) 0 (loop_end cfg_day 0 (Some (hours 48))))
                   DataFrame
                 = Inr (table_A\<lparr>rows := [(0, [Some 1]), (172800000000, [Some 2])]\<rparr>)"
    by (simp only: candidates_two_days visit_all_gap)
  moreover have "0 < interval cfg_day"
    by (simp add: cfg_day_def)
  ultimately show "get Keeps_offset cfg_day store_gap (Some 0) (Some (hours 48)) (Some 86400) []
     = Some (Inr \<lparr>index_name = Some ''time'', kind = Aware, names = [''x''],
                  rows = [(0, [Some 1]), (86400000000, [Some 0]), (172800000000, [Some 2])]\<rparr>)"
    by (simp add: get_eq_visit_all)
qed

subsection \<open>The window of \<open>get\<close>\<close>

lemma visit_hours:
  "visit pd cfg_day store_hours [] DataFrame 0
   = Inr (table_A\<lparr>rows := [(0, [Some 1]), (7200000000, [Some 2])]\<rparr>)"
proof -
  have "exists cfg_day store_hours 0 []"
    by (simp add: exists_def names_day) (simp add: store_hours_def path_exists_def)
  moreover have "read_file pd cfg_day store_hours ''data/0.csv''
                 = Inr (table_A\<lparr>rows := [(0, [Some 1]), (7200000000, [Some 2])]\<rparr>)"
    by (simp add: read_file_def open_csv_def store_hours_def read_csv_def cfg_day_def
        table_A_def parsed_kind_def empty_def tzinfo_def tz_localize_def)
  ultimately show ?thesis
    by (simp add: visit_def names_day)
       (simp add: combine_first_def DataFrame_def table_A_def empty_def union_index_def index_def)
qed

lemma visit_hours_next:
  "visit pd cfg_day store_hours [] data (hours 24) = Inr data"
  by (simp add: visit_def exists_def names_day) (simp add: store_hours_def path_exists_def)

lemma load_hours:
  "load pd cfg_day store_hours [] 0 (loop_end cfg_day 0 (Some (hours 1))) DataFrame
   = Some (Inr (table_A\<lparr>rows := [(0, [Some 1]), (7200000000, [Some 2])]\<rparr>))"
proof -
  have "0 < interval cfg_day"
    by (simp add: cfg_day_def)
  then show ?thesis
    by (simp add: load_eq_visit_all candidates_hour visit_hours visit_hours_next)
qed

lemma get_hours:
  "get pd cfg_day store_hours (Some 0) (Some (hours 1)) None []
   = Some (Inr (loc 0 (loop_end cfg_day 0 (Some (hours 1)))
                  (table_A\<lparr>rows := [(0, [Some 1]), (7200000000, [Some 2])]\<rparr>)))"
proof -
  have "0 \<le> loop_end cfg_day 0 (Some (hours 1))"
    by (simp add: loop_end_def cfg_day_def hours_def seconds_def)
  then show ?thesis
    by (simp add: get_eq_load load_hours finish_def resampling_def window_def)
qed

text \<open>
  C2, on the code. The claim has a call with an end return no row after that end, as
  the docstring of \<open>get\<close> describes \<open>end\<close>: the time until which values are looked
  up. With buckets of 24 hours and a file holding rows at 0:00 and 2:00, the call with
  \<open>start\<close> 0:00 and \<open>end\<close> 1:00 returns both rows: line 143 has added the bucket
  width less one second to the caller's end before the slice of line 161 is taken, so
  the row of 2:00, an hour after the caller's end, is in the result.
\<close>

theorem get_explicit_end_returns_later_row:
  "(3600000000 :: int) < 7200000000
   \<and> get Keeps_offset cfg_day store_hours (Some 0) (Some 3600000000) None []
     = Some (Inr \<lparr>index_name = Some ''time'', kind = Aware, names = [''x''],
                  rows = [(0, [Some 1]), (7200000000, [Some 2])]\<rparr>)"
  using get_hours [of Keeps_offset]
  by (simp add: loc_def table_A_def loop_end_def cfg_day_def hours_def seconds_def)

theorem get_explicit_end_returns_later_row_witness:
  "\<exists>r. get Keeps_offset cfg_day store_hours (Some 0) (Some 3600000000) None [] = Some (Inr r)
       \<and> (7200000000, [Some 2]) \<in> set (rows r)"
  using get_explicit_end_returns_later_row by simp

lemma candidates_noon:
  "candidates (hours (interval cfg_day)) (hours 12) (loop_end cfg_day (hours 12) (Some 0))
   = [hours 12]"
  by (simp add: candidates.simps hours_def seconds_def loop_end_def cfg_day_def)

lemma visit_noon:
  "visit pd cfg_day store_noon [] DataFrame (hours 12)
   = Inr (table_A\<lparr>rows := [(43200000000, [Some 1]), (46800000000, [Some 2])]\<rparr>)"
proof -
  have n: "join (dir cfg_day) [[], format cfg_day (hours 12) @ ''.csv''] = ''data/43200.csv''"
    by (simp add: cfg_day_def join_def join2_def epoch_seconds_def hours_def str_nat.simps)
  have "exists cfg_day store_noon (hours 12) []"
    by (simp add: exists_def n) (simp add: store_noon_def path_exists_def)
  moreover have "read_file pd cfg_day store_noon ''data/43200.csv''
                 = Inr (table_A\<lparr>rows := [(43200000000, [Some 1]), (46800000000, [Some 2])]\<rparr>)"
    by (simp add: read_file_def open_csv_def store_noon_def read_csv_def cfg_day_def
        table_A_def parsed_kind_def empty_def tzinfo_def tz_localize_def)
  ultimately show ?thesis
    by (simp add: visit_def n)
       (simp add: combine_first_def DataFrame_def table_A_def empty_def union_index_def index_def)
qed

text \<open>
  C4, on the code. The claim has a call whose \<open>start\<close> is later than its \<open>end\<close>
  return at most one row, the first at or after \<open>start\<close>, which is what lines 158
  and 159 are written for. With buckets of 24 hours and a file holding rows at 12:00
  and 13:00, the call with \<open>start\<close> 12:00 and \<open>end\<close> 0:00 returns both rows: the
  test of line 158 sees the end that line 143 has moved to 23:59:59, finds \<open>start\<close>
  not after it and leaves the cut to the slice of line 161.
\<close>

theorem get_backwards_range_returns_slice:
  "(0 :: int) < 43200000000
   \<and> get Keeps_offset cfg_day store_noon (Some 43200000000) (Some 0) None []
     = Some (Inr \<lparr>index_name = Some ''time'', kind = Aware, names = [''x''],
                  rows = [(43200000000, [Some 1]), (46800000000, [Some 2])]\<rparr>)"
proof -
  have "0 < interval cfg_day"
    by (simp add: cfg_day_def)
  then have "load Keeps_offset cfg_day store_noon [] (hours 12)
               (loop_end cfg_day (hours 12) (Some 0)) DataFrame
             = Some (Inr (table_A\<lparr>rows := [(43200000000, [Some 1]), (46800000000, [Some 2])]\<rparr>))"
    by (simp add: load_eq_visit_all candidates_noon visit_noon)
  moreover have "hours 12 \<le> loop_end cfg_day (hours 12) (Some 0)"
    by (simp add: loop_end_def cfg_day_def hours_def seconds_def)
  ultimately have "get Keeps_offset cfg_day store_noon (Some (hours 12)) (Some 0) None []
     = Some (Inr (loc (hours 12) (loop_end cfg_day (hours 12) (Some 0))
                    (table_A\<lparr>rows := [(43200000000, [Some 1]), (46800000000, [Some 2])]\<rparr>)))"
    by (simp add: get_eq_load finish_def resampling_def window_def)
  then show ?thesis
    by (simp add: loc_def table_A_def loop_end_def cfg_day_def hours_def seconds_def)
qed

theorem get_backwards_range_returns_slice_witness:
  "\<exists>r. get Keeps_offset cfg_day store_noon (Some 43200000000) (Some 0) None [] = Some (Inr r)
       \<and> length (rows r) = 2"
  using get_backwards_range_returns_slice by simp

subsection \<open>Resampling\<close>

lemma load_gap_day_1:
  "load pd cfg_day store_gap [] (hours 24) (loop_end cfg_day (hours 24) None) DataFrame
   = Some (Inr DataFrame)"
proof -
  have "0 < interval cfg_day"
    by (simp add: cfg_day_def)
  moreover have "candidates (hours (interval cfg_day)) (hours 24) (loop_end cfg_day (hours 24) None)
                 = [hours 24]"
    by (simp add: candidates.simps hours_def seconds_def loop_end_def cfg_day_def)
  ultimately show ?thesis
    by (simp add: load_eq_visit_all visit_missing exists_gap)
qed

lemma load_header_only:
  "load pd cfg_day (store file_header_only) [] 0 (loop_end cfg_day 0 None) DataFrame
   = Some (Inr DataFrame)"
proof -
  have "0 < interval cfg_day"
    by (simp add: cfg_day_def)
  moreover have "candidates (hours (interval cfg_day)) 0 (loop_end cfg_day 0 None) = [0]"
    by (simp add: candidates.simps hours_def seconds_def loop_end_def cfg_day_def)
  moreover have "exists cfg_day (store file_header_only) 0 []"
    by (simp add: exists_def names_day) (simp add: store_def path_exists_def)
  moreover have "read_file pd cfg_day (store file_header_only) ''data/0.csv''
                 = Inr \<lparr>index_name = Some ''time'', kind = Plain, names = [''x''], rows = []\<rparr>"
    by (simp add: read_file_def open_csv_def store_def file_header_only_def read_csv_def
        cfg_day_def empty_def)
  moreover have "combine_first DataFrame
                   \<lparr>index_name = Some ''time'', kind = Plain, names = [''x''], rows = []\<rparr>
                 = Inr DataFrame"
    by (simp add: combine_first_def DataFrame_def empty_def union_index_def index_def)
  ultimately show ?thesis
    by (simp add: load_eq_visit_all visit_def names_day)
qed

text \<open>
  C5, on the code. The claim has every call with a sampling interval of more than 900
  seconds resample the accumulated table and then move the end on by one interval.
  Where the span holds no data the code does not get there. Asked for day 1 of a store
  that has no file for day 1, with an interval of 3600 seconds, \<open>get\<close> hands the
  table of \<open>pd.DataFrame()\<close> to \<open>resample\<close> (line 154), which raises
  \<open>TypeError\<close> on a table without a \<open>DatetimeIndex\<close>; line 155 is not reached. The
  same happens when the only file of the span has a header and no data line. Without an
  interval the first call returns the empty table.
\<close>

theorem get_resample_without_data_raises:
  "get Keeps_offset cfg_day store_gap (Some 86400000000) None (Some 3600) []
     = Some (Inl TypeError)
   \<and> get Keeps_offset cfg_day (store file_header_only) (Some 0) None (Some 3600) []
     = Some (Inl TypeError)
   \<and> get Keeps_offset cfg_day store_gap (Some 86400000000) None None [] = Some (Inr DataFrame)"
proof -
  have r: "resample_sum w b DataFrame = Inl TypeError" for w b
    by (simp add: resample_sum_def DataFrame_def)
  have "get Keeps_offset cfg_day store_gap (Some (hours 24)) None (Some 3600) []
        = Some (Inl TypeError)"
    by (simp add: get_eq_load load_gap_day_1 finish_def resampling_def r)
  moreover have "get Keeps_offset cfg_day (store file_header_only) (Some 0) None (Some 3600) []
        = Some (Inl TypeError)"
    by (simp add: get_eq_load load_header_only finish_def resampling_def r)
  moreover have "get Keeps_offset cfg_day store_gap (Some (hours 24)) None None []
        = Some (Inr DataFrame)"
    by (simp add: get_eq_load load_gap_day_1 finish_def resampling_def window_DataFrame)
  ultimately show ?thesis
    by (simp add: hours_def)
qed

theorem get_resample_without_data_raises_witness:
  "\<forall>r. get Keeps_offset cfg_day store_gap (Some 86400000000) None (Some 3600) []
         \<noteq> Some (Inr r)"
  using get_resample_without_data_raises by simp

subsection \<open>Writing with merge\<close>

text \<open>
  The branch of line 188: when the file read for the merge is not empty and has every
  column of the new table, the file written is the union with the new table first, so
  the new value wins wherever the new table has one and the old value stays elsewhere.
\<close>

lemma write_file_merge_precedence:
  assumes "merge cfg" and "isfile s path" and "kind data = Aware"
    and "merge_read pd s path = Inr old" and "\<not> empty old"
    and "set (names data) \<subseteq> set (names old)"
    and "combine_first (data\<lparr>index_name := Some ''time''\<rparr>) old = Inr r"
  shows "write_file pd cfg s path data = (s\<lparr>files := (files s)(path \<mapsto> to_csv r)\<rparr>, None)"
    and "cell r c t = (case cell data c t of Some v \<Rightarrow> Some v | None \<Rightarrow> cell old c t)"
proof -
  have "list_all (\<lambda>name. name \<in> set (names old)) (names data)"
    using assms(6) by (auto simp: list_all_iff)
  then show "write_file pd cfg s path data = (s\<lparr>files := (files s)(path \<mapsto> to_csv r)\<rparr>, None)"
    using assms by (simp add: write_file_def tz_convert_def Let_def)
  have "cell (data\<lparr>index_name := Some ''time''\<rparr>) c t = cell data c t"
    by (simp add: cell_def split: option.splits)
  with cell_combine_first [OF assms(7), of c t]
  show "cell r c t = (case cell data c t of Some v \<Rightarrow> Some v | None \<Rightarrow> cell old c t)"
    by simp
qed

lemma stored_A_eq:
  "stored_A pd = \<lparr>files = [''data/0.csv'' \<mapsto> file_A], dirs = {''data/''}\<rparr>"
  by (simp add: stored_A_def persist_def table_A_def cfg_day_def no_files_def join_def join2_def
      epoch_seconds_def str_nat.simps path_exists_def makedirs_def write_file_def tz_convert_def
      isfile_def to_csv_def file_A_def Let_def)

lemma merge_read_stored_A:
  "merge_read Drops_offset (stored_A pd) ''data/0.csv'' = Inr table_A"
  "merge_read Keeps_offset (stored_A pd) ''data/0.csv'' = Inl TypeError"
  by (simp_all add: stored_A_eq merge_read_def open_csv_def file_A_def read_csv_def
      parsed_kind_def empty_def tz_localize_def table_A_def)

lemma concat_A_B:
  "concat_axis1 table_A (table_B\<lparr>index_name := Some ''time''\<rparr>)
   = \<lparr>index_name = Some ''time'', kind = Aware, names = [''x'', ''x'', ''y''],
      rows = [(0, [Some 1, Some 2, Some 3])]\<rparr>"
  by (simp add: concat_axis1_def table_A_def table_B_def union_name_def union_index_def
      index_def column_def upt_rec [of 0] upt_rec [of 1] upt_rec [of "Suc 0"])

lemma write_B_drops:
  "write_file Drops_offset cfg_day (stored_A Drops_offset) ''data/0.csv'' table_B
   = ((stored_A Drops_offset)
        \<lparr>files := (files (stored_A Drops_offset))
           (''data/0.csv'' \<mapsto> Csv ''time'' [''x'', ''x'', ''y''] Offsets
                                  [(0, [Some 1, Some 2, Some 3])])\<rparr>, None)"
proof -
  have "merge cfg_day" and "isfile (stored_A Drops_offset) ''data/0.csv''"
    and "tz_convert table_B = Inr table_B" and "\<not> empty table_A"
    and "\<not> list_all (\<lambda>name. name \<in> set (names table_A))
             (names (table_B\<lparr>index_name := Some ''time''\<rparr>))"
    by (simp_all add: cfg_day_def stored_A_eq isfile_def tz_convert_def table_B_def table_A_def
        empty_def)
  then show ?thesis
    by (simp add: write_file_def merge_read_stored_A concat_A_B Let_def to_csv_def)
qed

lemma write_B_keeps:
  "write_file Keeps_offset cfg_day (stored_A Keeps_offset) ''data/0.csv'' table_B
   = (stored_A Keeps_offset, Some TypeError)"
proof -
  have "merge cfg_day" and "isfile (stored_A Keeps_offset) ''data/0.csv''"
    and "tz_convert table_B = Inr table_B"
    by (simp_all add: cfg_day_def stored_A_eq isfile_def tz_convert_def table_B_def)
  then show ?thesis
    by (simp add: write_file_def merge_read_stored_A Let_def)
qed

lemma persist_B:
  "persist pd cfg_day (stored_A pd) (Some table_B) None None []
   = write_file pd cfg_day (stored_A pd) ''data/0.csv'' table_B"
proof -
  have "join (dir cfg_day) [[]] = ''data/''" and "join ''data/'' [''0.csv''] = ''data/0.csv''"
    and "format cfg_day 0 = ''0''" and "path_exists (stored_A pd) ''data/''"
    by (simp_all add: cfg_day_def join_def join2_def epoch_seconds_def str_nat.simps
        stored_A_eq path_exists_def)
  then show ?thesis
    by (simp add: persist_def table_B_def Let_def)
qed

text \<open>
  C1, on the code. \<open>table_A\<close> (column \<open>x\<close>, value 1 at the epoch) is persisted to
  an empty directory, then \<open>table_B\<close> (columns \<open>x\<close> and \<open>y\<close>, values 2 and 3 at
  the epoch) to the same file with merging on. \<open>table_B\<close> has a column the file lacks,
  so line 190 concatenates: the file written has the column \<open>x\<close> twice, first with
  the value of \<open>table_A\<close>, and read back the column \<open>x\<close> holds 1 while the value
  of \<open>table_B\<close> sits in a column \<open>x.1\<close>. Where the parser keeps the offsets that
  \<open>to_csv\<close> wrote, the merge does not get that far: line 185 raises \<open>TypeError\<close>
  and the file stays as \<open>table_A\<close> left it.
\<close>

theorem persist_merge_keeps_old_value:
  "files (stored_A Drops_offset) ''data/0.csv'' = Some file_A
   \<and> files (stored_AB Drops_offset) ''data/0.csv''
     = Some (Csv ''time'' [''x'', ''x'', ''y''] Offsets [(0, [Some 1, Some 2, Some 3])])
   \<and> read_file Drops_offset cfg_day (stored_AB Drops_offset) ''data/0.csv''
     = Inr \<lparr>index_name = Some ''time'', kind = Aware, names = [''x'', ''x.1'', ''y''],
            rows = [(0, [Some 1, Some 2, Some 3])]\<rparr>
   \<and> persist Keeps_offset cfg_day (stored_A Keeps_offset) (Some table_B) None None []
     = (stored_A Keeps_offset, Some TypeError)"
proof (intro conjI)
  show "files (stored_A Drops_offset) ''data/0.csv'' = Some file_A"
    by (simp add: stored_A_eq)
  show f: "files (stored_AB Drops_offset) ''data/0.csv''
     = Some (Csv ''time'' [''x'', ''x'', ''y''] Offsets [(0, [Some 1, Some 2, Some 3])])"
    by (simp add: stored_AB_def persist_B write_B_drops)
  show "read_file Drops_offset cfg_day (stored_AB Drops_offset) ''data/0.csv''
     = Inr \<lparr>index_name = Some ''time'', kind = Aware, names = [''x'', ''x.1'', ''y''],
            rows = [(0, [Some 1, Some 2, Some 3])]\<rparr>"
    by (simp add: read_file_def open_csv_def f read_csv_def cfg_day_def parsed_kind_def
        empty_def tzinfo_def tz_localize_def str_nat.simps)
  show "persist Keeps_offset cfg_day (stored_A Keeps_offset) (Some table_B) None None []
     = (stored_A Keeps_offset, Some TypeError)"
    by (simp add: persist_B write_B_keeps)
qed

theorem persist_merge_keeps_old_value_witness:
  "\<exists>f. read_file Drops_offset cfg_day (stored_AB Drops_offset) ''data/0.csv'' = Inr f
       \<and> cell table_A ''x'' 0 = Some 1 \<and> cell table_B ''x'' 0 = Some 2
       \<and> cell f ''x'' 0 = Some 1"
  using persist_merge_keeps_old_value by (simp add: cell_def table_A_def table_B_def)

end
